theory Spec2Isabelle
  imports Main
begin

section \<open>Registry providers\<close>

text \<open>
  The provider tags of package \<open>oci\<close>, as \<open>login.go\<close> uses them: the three cloud
  providers and the generic registry.
\<close>

datatype Provider = ProviderGeneric | ProviderAWS | ProviderGCP | ProviderAzure

section \<open>Image references\<close>

text \<open>
  \<open>name.Reference\<close> belongs to the go-containerregistry library. The model keeps what a
  parsed reference exposes: its repository context (the registry host and the repository
  path) and its identifier, which is a tag or a digest. A reference is a value the parser
  has produced, a \<open>Tag\<close> or a \<open>Digest\<close>: the nil interface value is not one, and the
  functions below are about parsed references. \<open>Context\<close> and \<open>RegistryStr\<close> are the
  two accessors that \<open>ImageRegistryProvider\<close> calls.
\<close>

record Repository =
  registry :: string
  repository :: string

datatype Reference = Tag Repository string | Digest Repository string

fun Context :: "Reference \<Rightarrow> Repository" where
  "Context (Tag r t) = r"
| "Context (Digest r d) = r"

definition RegistryStr :: "Repository \<Rightarrow> string" where
  "RegistryStr r = registry r"

section \<open>Provider detection\<close>

text \<open>
  \<open>aws.ParseImage\<close>, \<open>gcp.ValidHost\<close> and \<open>azure.ValidHost\<close> live in the provider
  packages. \<open>ImageRegistryProvider\<close> takes them as they are declared: \<open>ParseImage\<close> returns
  the account identifier, the region and a success flag, and each \<open>ValidHost\<close> is a
  predicate of the host string.
\<close>

record detect =
  aws_ParseImage :: "string \<Rightarrow> string \<times> string \<times> bool"
  gcp_ValidHost :: "string \<Rightarrow> bool"
  azure_ValidHost :: "string \<Rightarrow> bool"

definition ImageRegistryProvider :: "detect \<Rightarrow> string \<Rightarrow> Reference \<Rightarrow> Provider" where
  "ImageRegistryProvider dt img ref =
     (case aws_ParseImage dt img of
        (_, _, ok) \<Rightarrow>
          if ok then ProviderAWS
          else if gcp_ValidHost dt (RegistryStr (Context ref)) then ProviderGCP
          else if azure_ValidHost dt (RegistryStr (Context ref)) then ProviderAzure
          else ProviderGeneric)"

section \<open>Login options\<close>

record ProviderOptions =
  AwsAutoLogin :: bool
  GcpAutoLogin :: bool
  AzureAutoLogin :: bool

section \<open>The manager and its store\<close>

text \<open>
  A client handle is a Go pointer: \<open>None\<close> is \<open>nil\<close>, \<open>Some c\<close> points to the client \<open>c\<close>.
  A \<open>Manager\<close> is reached through a pointer too and its setters write through it, so
  managers live in a store: the address of a manager is its index in the list, \<open>None\<close> is
  the nil pointer, and reading or writing through a pointer that holds no manager is the
  run-time panic of a nil dereference.
\<close>

record ('ecr, 'gcr, 'acr) Manager =
  ecr :: "'ecr option"
  gcr :: "'gcr option"
  acr :: "'acr option"

type_synonym ('ecr, 'gcr, 'acr) store = "('ecr, 'gcr, 'acr) Manager list"

type_synonym pointer = "nat option"

datatype panic = NilPointerDereference

fun deref :: "('ecr, 'gcr, 'acr) store \<Rightarrow> pointer \<Rightarrow> ('ecr, 'gcr, 'acr) Manager option" where
  "deref h None = None"
| "deref h (Some a) = (if a < length h then Some (h ! a) else None)"

fun assign :: "('ecr, 'gcr, 'acr) store \<Rightarrow> pointer \<Rightarrow> ('ecr, 'gcr, 'acr) Manager
    \<Rightarrow> ('ecr, 'gcr, 'acr) store" where
  "assign h None v = h"
| "assign h (Some a) v = h[a := v]"

text \<open>
  Modelled from the spec: the constructors \<open>aws.NewClient\<close>, \<open>gcp.NewClient\<close> and
  \<open>azure.NewClient\<close> are not among the sources. The spec says that the default constructor
  builds a Manager with the three standard provider clients and wires default clients:
  each constructor yields a handle on the standard client of its provider, which is a
  pointer to a client and not nil.
\<close>

definition aws_NewClient :: "'ecr \<Rightarrow> 'ecr option" where
  "aws_NewClient std = Some std"

definition gcp_NewClient :: "'gcr \<Rightarrow> 'gcr option" where
  "gcp_NewClient std = Some std"

definition azure_NewClient :: "'acr \<Rightarrow> 'acr option" where
  "azure_NewClient std = Some std"

text \<open>
  \<open>NewManager\<close> allocates a manager (at the next free address of the store) whose handles
  are the results of the three constructors, and returns the pointer to it.
\<close>

definition NewManager :: "'ecr \<Rightarrow> 'gcr \<Rightarrow> 'acr \<Rightarrow> ('ecr, 'gcr, 'acr) store
    \<Rightarrow> pointer \<times> ('ecr, 'gcr, 'acr) store" where
  "NewManager e g a h =
     (Some (length h),
      h @ [\<lparr>ecr = aws_NewClient e, gcr = gcp_NewClient g, acr = azure_NewClient a\<rparr>])"

text \<open>
  The setters assign one field through the receiver and return the receiver.
\<close>

definition WithECRClient :: "('ecr, 'gcr, 'acr) store \<Rightarrow> pointer \<Rightarrow> 'ecr option
    \<Rightarrow> panic + (pointer \<times> ('ecr, 'gcr, 'acr) store)" where
  "WithECRClient h m c =
     (case deref h m of
        None \<Rightarrow> Inl NilPointerDereference
      | Some mgr \<Rightarrow> Inr (m, assign h m (mgr\<lparr>ecr := c\<rparr>)))"

definition WithGCRClient :: "('ecr, 'gcr, 'acr) store \<Rightarrow> pointer \<Rightarrow> 'gcr option
    \<Rightarrow> panic + (pointer \<times> ('ecr, 'gcr, 'acr) store)" where
  "WithGCRClient h m c =
     (case deref h m of
        None \<Rightarrow> Inl NilPointerDereference
      | Some mgr \<Rightarrow> Inr (m, assign h m (mgr\<lparr>gcr := c\<rparr>)))"

definition WithACRClient :: "('ecr, 'gcr, 'acr) store \<Rightarrow> pointer \<Rightarrow> 'acr option
    \<Rightarrow> panic + (pointer \<times> ('ecr, 'gcr, 'acr) store)" where
  "WithACRClient h m c =
     (case deref h m of
        None \<Rightarrow> Inl NilPointerDereference
      | Some mgr \<Rightarrow> Inr (m, assign h m (mgr\<lparr>acr := c\<rparr>)))"

section \<open>The provider clients\<close>

text \<open>
  The login routines of the three clients are external to \<open>login.go\<close>: they are
  parameters, with the signatures the calls in \<open>Login\<close> show. Each takes its receiver (the
  handle, possibly nil), the context, the auto-login flag and the image (the GCR and ACR
  clients also the reference) and returns an authenticator and an error, either of which
  may be nil. A routine talks to the outside, so it reads and changes a world \<open>'w\<close>.
\<close>

type_synonym ('a, 'e) result = "'a option \<times> 'e option"

record ('ecr, 'gcr, 'acr, 'ctx, 'a, 'e, 'w) clients =
  aws_Login :: "'ecr option \<Rightarrow> 'ctx \<Rightarrow> bool \<Rightarrow> string \<Rightarrow> 'w \<Rightarrow> ('a, 'e) result \<times> 'w"
  gcp_Login :: "'gcr option \<Rightarrow> 'ctx \<Rightarrow> bool \<Rightarrow> string \<Rightarrow> Reference \<Rightarrow> 'w
    \<Rightarrow> ('a, 'e) result \<times> 'w"
  azure_Login :: "'acr option \<Rightarrow> 'ctx \<Rightarrow> bool \<Rightarrow> string \<Rightarrow> Reference \<Rightarrow> 'w
    \<Rightarrow> ('a, 'e) result \<times> 'w"

text \<open>
  To tell which routines a call of \<open>Login\<close> invokes, every invocation is logged with its
  receiver and arguments, in order, next to the world.
\<close>

datatype ('ecr, 'gcr, 'acr, 'ctx) call =
    ECR_Login "'ecr option" 'ctx bool string
  | GCR_Login "'gcr option" 'ctx bool string Reference
  | ACR_Login "'acr option" 'ctx bool string Reference

record ('ecr, 'gcr, 'acr, 'ctx, 'w) session =
  calls :: "('ecr, 'gcr, 'acr, 'ctx) call list"
  world :: 'w

definition invoke :: "('ecr, 'gcr, 'acr, 'ctx) call \<Rightarrow> ('w \<Rightarrow> ('a, 'e) result \<times> 'w)
    \<Rightarrow> ('ecr, 'gcr, 'acr, 'ctx, 'w) session
    \<Rightarrow> (panic + ('a, 'e) result) \<times> ('ecr, 'gcr, 'acr, 'ctx, 'w) session" where
  "invoke c f s =
     (case f (world s) of
        (r, w') \<Rightarrow> (Inr r, \<lparr>calls = calls s @ [c], world = w'\<rparr>))"

fun nil_receiver :: "('ecr, 'gcr, 'acr, 'ctx) call \<Rightarrow> bool" where
  "nil_receiver (ECR_Login c _ _ _) = (c = None)"
| "nil_receiver (GCR_Login c _ _ _ _) = (c = None)"
| "nil_receiver (ACR_Login c _ _ _ _) = (c = None)"

section \<open>Login\<close>

text \<open>
  \<open>Login\<close> switches on the provider of the image. In a provider's case it reads the
  handle through the receiver \<open>m\<close> and returns what the client's routine returns; past the
  switch it returns \<open>nil, nil\<close> and has read nothing.
\<close>

definition Login :: "detect \<Rightarrow> ('ecr, 'gcr, 'acr, 'ctx, 'a, 'e, 'w) clients
    \<Rightarrow> ('ecr, 'gcr, 'acr) store \<Rightarrow> pointer \<Rightarrow> 'ctx \<Rightarrow> string \<Rightarrow> Reference \<Rightarrow> ProviderOptions
    \<Rightarrow> ('ecr, 'gcr, 'acr, 'ctx, 'w) session
    \<Rightarrow> (panic + ('a, 'e) result) \<times> ('ecr, 'gcr, 'acr, 'ctx, 'w) session" where
  "Login dt cl h m ctx img ref opts s =
     (case ImageRegistryProvider dt img ref of
        ProviderAWS \<Rightarrow>
          (case deref h m of
             None \<Rightarrow> (Inl NilPointerDereference, s)
           | Some mgr \<Rightarrow>
               invoke (ECR_Login (ecr mgr) ctx (AwsAutoLogin opts) img)
                 (aws_Login cl (ecr mgr) ctx (AwsAutoLogin opts) img) s)
      | ProviderGCP \<Rightarrow>
          (case deref h m of
             None \<Rightarrow> (Inl NilPointerDereference, s)
           | Some mgr \<Rightarrow>
               invoke (GCR_Login (gcr mgr) ctx (GcpAutoLogin opts) img ref)
                 (gcp_Login cl (gcr mgr) ctx (GcpAutoLogin opts) img ref) s)
      | ProviderAzure \<Rightarrow>
          (case deref h m of
             None \<Rightarrow> (Inl NilPointerDereference, s)
           | Some mgr \<Rightarrow>
               invoke (ACR_Login (acr mgr) ctx (AzureAutoLogin opts) img ref)
                 (azure_Login cl (acr mgr) ctx (AzureAutoLogin opts) img ref) s)
      | ProviderGeneric \<Rightarrow> (Inr (None, None), s))"

section \<open>Test doubles\<close>

text \<open>
  Stand-ins for the detection functions and the clients, used to run the model on
  concrete inputs. The detection stubs accept the hosts of the spec's example scenarios;
  \<open>fake_detect_all\<close> accepts everything, for inputs on which the three heuristics overlap.
  The fake clients count their invocations in the world (a number) and answer with a
  fixed authenticator or error.
\<close>

definition fake_detect :: detect where
  "fake_detect =
     \<lparr>aws_ParseImage = (\<lambda>img.
        if img = ''123456789012.dkr.ecr.us-west-2.amazonaws.com/my-repo:v1''
        then (''123456789012'', ''us-west-2'', True) else ('''', '''', False)),
      gcp_ValidHost = (\<lambda>host. host = ''gcr.io''),
      azure_ValidHost = (\<lambda>host. host = ''myregistry.azurecr.io'')\<rparr>"

definition fake_detect_all :: detect where
  "fake_detect_all =
     \<lparr>aws_ParseImage = (\<lambda>img. (''123456789012'', ''us-west-2'', True)),
      gcp_ValidHost = (\<lambda>host. True),
      azure_ValidHost = (\<lambda>host. True)\<rparr>"

definition fake_clients :: "(nat, nat, nat, nat, string, string, nat) clients" where
  "fake_clients =
     \<lparr>aws_Login = (\<lambda>c ctx auto img w.
        ((if auto then Some ''aws-token'' else None,
          if auto then None else Some ''ECR authentication failed''), Suc w)),
      gcp_Login = (\<lambda>c ctx auto img ref w.
        ((if auto then Some ''gcp-token'' else None,
          if auto then None else Some ''GCR authentication failed''), Suc w)),
      azure_Login = (\<lambda>c ctx auto img ref w.
        ((if auto then Some ''azure-token'' else None,
          if auto then None else Some ''ACR authentication failed''), Suc w))\<rparr>"

definition aws_image :: string where
  "aws_image = ''123456789012.dkr.ecr.us-west-2.amazonaws.com/my-repo:v1''"

definition aws_ref :: Reference where
  "aws_ref = Tag \<lparr>registry = ''123456789012.dkr.ecr.us-west-2.amazonaws.com'',
     repository = ''my-repo''\<rparr> ''v1''"

definition gcr_ref :: Reference where
  "gcr_ref = Tag \<lparr>registry = ''gcr.io'', repository = ''my-project/my-repo''\<rparr> ''latest''"

definition acr_ref :: Reference where
  "acr_ref = Tag \<lparr>registry = ''myregistry.azurecr.io'', repository = ''my-repo''\<rparr> ''latest''"

definition docker_ref :: Reference where
  "docker_ref = Tag \<lparr>registry = ''docker.io'', repository = ''library/nginx''\<rparr> ''latest''"

section \<open>Properties of provider detection\<close>

text \<open>
  C1. Whenever \<open>aws.ParseImage\<close> succeeds on the image, \<open>ImageRegistryProvider\<close> returns
  AWS, whatever the reference is and whatever the GCP and Azure host predicates say about
  its registry host: the AWS test comes first.
\<close>

theorem aws_first:
  "snd (snd (aws_ParseImage dt img)) \<Longrightarrow> ImageRegistryProvider dt img ref = ProviderAWS"
  by (cases "aws_ParseImage dt img") (simp add: ImageRegistryProvider_def)

theorem aws_first_witness:
  "snd (snd (aws_ParseImage fake_detect_all aws_image))
   \<and> gcp_ValidHost fake_detect_all (RegistryStr (Context gcr_ref))
   \<and> azure_ValidHost fake_detect_all (RegistryStr (Context gcr_ref))
   \<and> ImageRegistryProvider fake_detect_all aws_image gcr_ref = ProviderAWS"
proof -
  have ok: "snd (snd (aws_ParseImage fake_detect_all aws_image))"
    by (simp add: fake_detect_all_def)
  show ?thesis
    using ok aws_first [OF ok, of gcr_ref] by (simp add: fake_detect_all_def)
qed

text \<open>
  C2. \<open>ImageRegistryProvider\<close> is total: on every image and reference it yields one of
  the four tags (its result type has no error), and the tag is Generic exactly when
  \<open>aws.ParseImage\<close> fails on the image and the registry host of the reference satisfies
  neither the GCP nor the Azure host predicate.
\<close>

theorem provider_total:
  "ImageRegistryProvider dt img ref \<in> {ProviderAWS, ProviderGCP, ProviderAzure, ProviderGeneric}
   \<and> (ImageRegistryProvider dt img ref = ProviderGeneric
        \<longleftrightarrow> \<not> snd (snd (aws_ParseImage dt img))
          \<and> \<not> gcp_ValidHost dt (RegistryStr (Context ref))
          \<and> \<not> azure_ValidHost dt (RegistryStr (Context ref)))"
  by (cases "aws_ParseImage dt img") (simp add: ImageRegistryProvider_def)

theorem provider_total_witness:
  "ImageRegistryProvider fake_detect ''docker.io/library/nginx'' docker_ref = ProviderGeneric
   \<and> ImageRegistryProvider fake_detect ''gcr.io/my-project/my-repo'' gcr_ref \<noteq> ProviderGeneric"
  using provider_total [of fake_detect "''docker.io/library/nginx''" docker_ref]
    provider_total [of fake_detect "''gcr.io/my-project/my-repo''" gcr_ref]
  by (simp add: fake_detect_def docker_ref_def gcr_ref_def RegistryStr_def)

text \<open>
  C6. When \<open>aws.ParseImage\<close> fails on the image and the registry host of the reference
  satisfies \<open>gcp.ValidHost\<close>, \<open>ImageRegistryProvider\<close> returns GCP.
\<close>

theorem gcp_second:
  "\<not> snd (snd (aws_ParseImage dt img)) \<Longrightarrow> gcp_ValidHost dt (RegistryStr (Context ref))
   \<Longrightarrow> ImageRegistryProvider dt img ref = ProviderGCP"
  by (cases "aws_ParseImage dt img") (simp add: ImageRegistryProvider_def)

theorem gcp_second_witness:
  "\<not> snd (snd (aws_ParseImage fake_detect ''gcr.io/my-project/my-repo''))
   \<and> gcp_ValidHost fake_detect (RegistryStr (Context gcr_ref))
   \<and> ImageRegistryProvider fake_detect ''gcr.io/my-project/my-repo'' gcr_ref = ProviderGCP"
proof -
  have no_aws: "\<not> snd (snd (aws_ParseImage fake_detect ''gcr.io/my-project/my-repo''))"
    by (simp add: fake_detect_def)
  have gcp: "gcp_ValidHost fake_detect (RegistryStr (Context gcr_ref))"
    by (simp add: fake_detect_def gcr_ref_def RegistryStr_def)
  show ?thesis
    using no_aws gcp gcp_second [OF no_aws gcp] by simp
qed

text \<open>
  C7. When \<open>aws.ParseImage\<close> fails on the image and the registry host of the reference
  fails \<open>gcp.ValidHost\<close> but satisfies \<open>azure.ValidHost\<close>, \<open>ImageRegistryProvider\<close> returns
  Azure.
\<close>

theorem azure_third:
  "\<not> snd (snd (aws_ParseImage dt img)) \<Longrightarrow> \<not> gcp_ValidHost dt (RegistryStr (Context ref))
   \<Longrightarrow> azure_ValidHost dt (RegistryStr (Context ref))
   \<Longrightarrow> ImageRegistryProvider dt img ref = ProviderAzure"
  by (cases "aws_ParseImage dt img") (simp add: ImageRegistryProvider_def)

theorem azure_third_witness:
  "\<not> snd (snd (aws_ParseImage fake_detect ''myregistry.azurecr.io/my-repo''))
   \<and> \<not> gcp_ValidHost fake_detect (RegistryStr (Context acr_ref))
   \<and> azure_ValidHost fake_detect (RegistryStr (Context acr_ref))
   \<and> ImageRegistryProvider fake_detect ''myregistry.azurecr.io/my-repo'' acr_ref = ProviderAzure"
proof -
  have no_aws: "\<not> snd (snd (aws_ParseImage fake_detect ''myregistry.azurecr.io/my-repo''))"
    by (simp add: fake_detect_def)
  have no_gcp: "\<not> gcp_ValidHost fake_detect (RegistryStr (Context acr_ref))"
    by (simp add: fake_detect_def acr_ref_def RegistryStr_def)
  have azure: "azure_ValidHost fake_detect (RegistryStr (Context acr_ref))"
    by (simp add: fake_detect_def acr_ref_def RegistryStr_def)
  show ?thesis
    using no_aws no_gcp azure azure_third [OF no_aws no_gcp azure] by simp
qed

text \<open>
  C9. \<open>ImageRegistryProvider\<close> reads the image and, of the reference, only the registry
  host: two references with the same registry host get the same tag for the same image,
  whatever their repositories and their tags or digests.
\<close>

theorem provider_reads_registry_only:
  "RegistryStr (Context ref1) = RegistryStr (Context ref2)
   \<Longrightarrow> ImageRegistryProvider dt img ref1 = ImageRegistryProvider dt img ref2"
  by (simp add: ImageRegistryProvider_def)

theorem provider_reads_registry_only_witness:
  "RegistryStr (Context gcr_ref)
     = RegistryStr (Context (Digest \<lparr>registry = ''gcr.io'', repository = ''other/repo''\<rparr>
         ''sha256:0123456789abcdef''))
   \<and> gcr_ref \<noteq> Digest \<lparr>registry = ''gcr.io'', repository = ''other/repo''\<rparr>
         ''sha256:0123456789abcdef''
   \<and> ImageRegistryProvider fake_detect ''gcr.io/my-project/my-repo'' gcr_ref
     = ImageRegistryProvider fake_detect ''gcr.io/my-project/my-repo''
         (Digest \<lparr>registry = ''gcr.io'', repository = ''other/repo''\<rparr> ''sha256:0123456789abcdef'')"
proof -
  have same: "RegistryStr (Context gcr_ref)
     = RegistryStr (Context (Digest \<lparr>registry = ''gcr.io'', repository = ''other/repo''\<rparr>
         ''sha256:0123456789abcdef''))"
    by (simp add: gcr_ref_def RegistryStr_def)
  have differ: "gcr_ref \<noteq> Digest \<lparr>registry = ''gcr.io'', repository = ''other/repo''\<rparr>
         ''sha256:0123456789abcdef''"
    by (simp add: gcr_ref_def)
  show ?thesis
    using same differ
      provider_reads_registry_only [OF same, of fake_detect "''gcr.io/my-project/my-repo''"]
    by simp
qed

section \<open>Properties of the store\<close>

lemma deref_assign_same:
  "deref h m = Some mgr \<Longrightarrow> deref (assign h m v) m = Some v"
  by (cases m) (simp_all split: if_splits)

lemma deref_assign_other:
  "p \<noteq> m \<Longrightarrow> deref (assign h m v) p = deref h p"
  by (cases m; cases p) simp_all

section \<open>Properties of Login\<close>

text \<open>
  C3. On an input whose provider is Generic, \<open>Login\<close> returns \<open>nil, nil\<close> (no
  authenticator and no error) and leaves the log of invocations and the world as they
  were: no client routine runs. This holds for every store and receiver, hence for every
  state of the handles, and for every value of the options.
\<close>

theorem login_generic:
  "ImageRegistryProvider dt img ref = ProviderGeneric
   \<Longrightarrow> Login dt cl h m ctx img ref opts s = (Inr (None, None), s)"
  by (simp add: Login_def)

theorem login_generic_witness:
  "ImageRegistryProvider fake_detect ''docker.io/library/nginx'' docker_ref = ProviderGeneric
   \<and> Login fake_detect fake_clients [\<lparr>ecr = None, gcr = Some 2, acr = Some 3\<rparr>] (Some 0) (0::nat)
       ''docker.io/library/nginx'' docker_ref
       \<lparr>AwsAutoLogin = True, GcpAutoLogin = True, AzureAutoLogin = True\<rparr>
       \<lparr>calls = [], world = 0\<rparr>
     = (Inr (None, None), \<lparr>calls = [], world = 0\<rparr>)"
proof -
  have generic:
    "ImageRegistryProvider fake_detect ''docker.io/library/nginx'' docker_ref = ProviderGeneric"
    by (simp add: ImageRegistryProvider_def fake_detect_def docker_ref_def RegistryStr_def)
  show ?thesis
    using generic login_generic [OF generic] by simp
qed

text \<open>
  C4. On an input whose provider is AWS, with a receiver that points to a manager,
  \<open>Login\<close> returns the authenticator and the error of the ECR client's routine, run once
  on the manager's ECR handle with the context, \<open>AwsAutoLogin\<close> and the image; the log
  grows by that one invocation, so neither the GCR nor the ACR client runs, and the world
  is the one the routine leaves.
\<close>

theorem login_aws:
  "ImageRegistryProvider dt img ref = ProviderAWS \<Longrightarrow> deref h m = Some mgr
   \<Longrightarrow> Login dt cl h m ctx img ref opts s =
       (Inr (fst (aws_Login cl (ecr mgr) ctx (AwsAutoLogin opts) img (world s))),
        \<lparr>calls = calls s @ [ECR_Login (ecr mgr) ctx (AwsAutoLogin opts) img],
         world = snd (aws_Login cl (ecr mgr) ctx (AwsAutoLogin opts) img (world s))\<rparr>)"
  by (simp add: Login_def invoke_def split: prod.splits)

theorem login_aws_witness:
  "ImageRegistryProvider fake_detect aws_image aws_ref = ProviderAWS
   \<and> deref [\<lparr>ecr = Some 1, gcr = Some 2, acr = Some 3\<rparr>] (Some 0)
       = Some \<lparr>ecr = Some (1::nat), gcr = Some (2::nat), acr = Some (3::nat)\<rparr>
   \<and> Login fake_detect fake_clients [\<lparr>ecr = Some 1, gcr = Some 2, acr = Some 3\<rparr>] (Some 0)
       (0::nat) aws_image aws_ref
       \<lparr>AwsAutoLogin = False, GcpAutoLogin = True, AzureAutoLogin = True\<rparr>
       \<lparr>calls = [], world = 0\<rparr>
     = (Inr (None, Some ''ECR authentication failed''),
        \<lparr>calls = [ECR_Login (Some 1) 0 False aws_image], world = 1\<rparr>)"
proof -
  have aws: "ImageRegistryProvider fake_detect aws_image aws_ref = ProviderAWS"
    by (simp add: ImageRegistryProvider_def fake_detect_def aws_image_def)
  have live: "deref [\<lparr>ecr = Some 1, gcr = Some 2, acr = Some 3\<rparr>] (Some 0)
       = Some \<lparr>ecr = Some (1::nat), gcr = Some (2::nat), acr = Some (3::nat)\<rparr>"
    by simp
  show ?thesis
    using aws live
      login_aws [OF aws live, of fake_clients 0
        "\<lparr>AwsAutoLogin = False, GcpAutoLogin = True, AzureAutoLogin = True\<rparr>"
        "\<lparr>calls = [], world = 0\<rparr>"]
    by (simp add: fake_clients_def)
qed

text \<open>
  C5. With a receiver that points to a manager: on an input whose provider is GCP,
  \<open>Login\<close> returns the authenticator and the error of the GCR client's routine, run once
  on the manager's GCR handle with the context, \<open>GcpAutoLogin\<close>, the image and the
  reference; on an input whose provider is Azure, those of the ACR client's routine, run
  once on the ACR handle with the context, \<open>AzureAutoLogin\<close>, the image and the reference.
  In both cases the log grows by that one invocation and by nothing else.
\<close>

theorem login_gcp_azure:
  "deref h m = Some mgr \<Longrightarrow>
   (ImageRegistryProvider dt img ref = ProviderGCP \<longrightarrow>
      Login dt cl h m ctx img ref opts s =
        (Inr (fst (gcp_Login cl (gcr mgr) ctx (GcpAutoLogin opts) img ref (world s))),
         \<lparr>calls = calls s @ [GCR_Login (gcr mgr) ctx (GcpAutoLogin opts) img ref],
          world = snd (gcp_Login cl (gcr mgr) ctx (GcpAutoLogin opts) img ref (world s))\<rparr>))
   \<and> (ImageRegistryProvider dt img ref = ProviderAzure \<longrightarrow>
      Login dt cl h m ctx img ref opts s =
        (Inr (fst (azure_Login cl (acr mgr) ctx (AzureAutoLogin opts) img ref (world s))),
         \<lparr>calls = calls s @ [ACR_Login (acr mgr) ctx (AzureAutoLogin opts) img ref],
          world = snd (azure_Login cl (acr mgr) ctx (AzureAutoLogin opts) img ref (world s))\<rparr>))"
  by (simp add: Login_def invoke_def split: prod.splits)

theorem login_gcp_azure_witness:
  "deref [\<lparr>ecr = Some 1, gcr = Some 2, acr = Some 3\<rparr>] (Some 0)
       = Some \<lparr>ecr = Some (1::nat), gcr = Some (2::nat), acr = Some (3::nat)\<rparr>
   \<and> ImageRegistryProvider fake_detect ''gcr.io/my-project/my-repo'' gcr_ref = ProviderGCP
   \<and> Login fake_detect fake_clients [\<lparr>ecr = Some 1, gcr = Some 2, acr = Some 3\<rparr>] (Some 0)
       (0::nat) ''gcr.io/my-project/my-repo'' gcr_ref
       \<lparr>AwsAutoLogin = False, GcpAutoLogin = True, AzureAutoLogin = False\<rparr>
       \<lparr>calls = [], world = 0\<rparr>
     = (Inr (Some ''gcp-token'', None),
        \<lparr>calls = [GCR_Login (Some 2) 0 True ''gcr.io/my-project/my-repo'' gcr_ref], world = 1\<rparr>)
   \<and> ImageRegistryProvider fake_detect ''myregistry.azurecr.io/my-repo'' acr_ref = ProviderAzure
   \<and> Login fake_detect fake_clients [\<lparr>ecr = Some 1, gcr = Some 2, acr = Some 3\<rparr>] (Some 0)
       (0::nat) ''myregistry.azurecr.io/my-repo'' acr_ref
       \<lparr>AwsAutoLogin = True, GcpAutoLogin = True, AzureAutoLogin = False\<rparr>
       \<lparr>calls = [], world = 0\<rparr>
     = (Inr (None, Some ''ACR authentication failed''),
        \<lparr>calls = [ACR_Login (Some 3) 0 False ''myregistry.azurecr.io/my-repo'' acr_ref],
         world = 1\<rparr>)"
proof -
  have live: "deref [\<lparr>ecr = Some 1, gcr = Some 2, acr = Some 3\<rparr>] (Some 0)
       = Some \<lparr>ecr = Some (1::nat), gcr = Some (2::nat), acr = Some (3::nat)\<rparr>"
    by simp
  have gcp: "ImageRegistryProvider fake_detect ''gcr.io/my-project/my-repo'' gcr_ref = ProviderGCP"
    by (simp add: ImageRegistryProvider_def fake_detect_def gcr_ref_def RegistryStr_def)
  have azure:
    "ImageRegistryProvider fake_detect ''myregistry.azurecr.io/my-repo'' acr_ref = ProviderAzure"
    by (simp add: ImageRegistryProvider_def fake_detect_def acr_ref_def RegistryStr_def)
  show ?thesis
    using live gcp azure
      login_gcp_azure [OF live, of fake_detect "''gcr.io/my-project/my-repo''" gcr_ref
        fake_clients 0 "\<lparr>AwsAutoLogin = False, GcpAutoLogin = True, AzureAutoLogin = False\<rparr>"
        "\<lparr>calls = [], world = 0\<rparr>"]
      login_gcp_azure [OF live, of fake_detect "''myregistry.azurecr.io/my-repo''" acr_ref
        fake_clients 0 "\<lparr>AwsAutoLogin = True, GcpAutoLogin = True, AzureAutoLogin = False\<rparr>"
        "\<lparr>calls = [], world = 0\<rparr>"]
    by (simp add: fake_clients_def)
qed

section \<open>Properties of the setters and the constructor\<close>

text \<open>
  C8. Applied to a receiver that points to a manager and to any client handle (nil
  included), each setter returns its receiver and leaves a store in which that manager
  has the new handle in the setter's own field and its two other handles as before, and
  in which every other manager is as before. \<open>Login\<close> does not change the store, so
  every following \<open>Login\<close> on an input of the setter's provider, in whatever state of
  the log and the world, runs that provider's routine on the new handle, and the log grows
  by that one invocation.
\<close>

theorem setters_override:
  assumes "deref h m = Some mgr"
  shows
    "(case WithECRClient h m c1 of
        Inl _ \<Rightarrow> False
      | Inr (m', h') \<Rightarrow>
          m' = m
          \<and> deref h' m = Some \<lparr>ecr = c1, gcr = gcr mgr, acr = acr mgr\<rparr>
          \<and> (\<forall>p. p \<noteq> m \<longrightarrow> deref h' p = deref h p)
          \<and> (ImageRegistryProvider dt img ref = ProviderAWS \<longrightarrow>
               Login dt cl h' m ctx img ref opts s =
                 (Inr (fst (aws_Login cl c1 ctx (AwsAutoLogin opts) img (world s))),
                  \<lparr>calls = calls s @ [ECR_Login c1 ctx (AwsAutoLogin opts) img],
                   world = snd (aws_Login cl c1 ctx (AwsAutoLogin opts) img (world s))\<rparr>)))
     \<and> (case WithGCRClient h m c2 of
        Inl _ \<Rightarrow> False
      | Inr (m', h') \<Rightarrow>
          m' = m
          \<and> deref h' m = Some \<lparr>ecr = ecr mgr, gcr = c2, acr = acr mgr\<rparr>
          \<and> (\<forall>p. p \<noteq> m \<longrightarrow> deref h' p = deref h p)
          \<and> (ImageRegistryProvider dt img ref = ProviderGCP \<longrightarrow>
               Login dt cl h' m ctx img ref opts s =
                 (Inr (fst (gcp_Login cl c2 ctx (GcpAutoLogin opts) img ref (world s))),
                  \<lparr>calls = calls s @ [GCR_Login c2 ctx (GcpAutoLogin opts) img ref],
                   world = snd (gcp_Login cl c2 ctx (GcpAutoLogin opts) img ref (world s))\<rparr>)))
     \<and> (case WithACRClient h m c3 of
        Inl _ \<Rightarrow> False
      | Inr (m', h') \<Rightarrow>
          m' = m
          \<and> deref h' m = Some \<lparr>ecr = ecr mgr, gcr = gcr mgr, acr = c3\<rparr>
          \<and> (\<forall>p. p \<noteq> m \<longrightarrow> deref h' p = deref h p)
          \<and> (ImageRegistryProvider dt img ref = ProviderAzure \<longrightarrow>
               Login dt cl h' m ctx img ref opts s =
                 (Inr (fst (azure_Login cl c3 ctx (AzureAutoLogin opts) img ref (world s))),
                  \<lparr>calls = calls s @ [ACR_Login c3 ctx (AzureAutoLogin opts) img ref],
                   world = snd (azure_Login cl c3 ctx (AzureAutoLogin opts) img ref (world s))\<rparr>)))"
  using assms
  by (simp add: WithECRClient_def WithGCRClient_def WithACRClient_def Login_def invoke_def
      deref_assign_same deref_assign_other split: prod.splits)

theorem setters_override_witness:
  "deref [\<lparr>ecr = Some 14, gcr = Some 15, acr = None\<rparr>, \<lparr>ecr = Some 11, gcr = Some 12, acr = Some 13\<rparr>]
       (Some 0)
     = Some \<lparr>ecr = Some (14::nat), gcr = Some (15::nat), acr = (None :: nat option)\<rparr>
   \<and> WithECRClient
       [\<lparr>ecr = Some 14, gcr = Some 15, acr = None\<rparr>, \<lparr>ecr = Some 11, gcr = Some 12, acr = Some 13\<rparr>]
       (Some 0) (Some 7)
     = Inr (Some 0,
         [\<lparr>ecr = Some 7, gcr = Some 15, acr = None\<rparr>,
          \<lparr>ecr = Some (11::nat), gcr = Some (12::nat), acr = Some (13::nat)\<rparr>])
   \<and> Login fake_detect fake_clients
       [\<lparr>ecr = Some 7, gcr = Some 15, acr = None\<rparr>, \<lparr>ecr = Some 11, gcr = Some 12, acr = Some 13\<rparr>]
       (Some 0) (0::nat) aws_image aws_ref
       \<lparr>AwsAutoLogin = True, GcpAutoLogin = False, AzureAutoLogin = False\<rparr>
       \<lparr>calls = [], world = 0\<rparr>
     = (Inr (Some ''aws-token'', None),
        \<lparr>calls = [ECR_Login (Some 7) 0 True aws_image], world = 1\<rparr>)
   \<and> WithGCRClient
       [\<lparr>ecr = Some 14, gcr = Some 15, acr = None\<rparr>, \<lparr>ecr = Some 11, gcr = Some 12, acr = Some 13\<rparr>]
       (Some 0) None
     = Inr (Some 0,
         [\<lparr>ecr = Some 14, gcr = None, acr = None\<rparr>,
          \<lparr>ecr = Some (11::nat), gcr = Some (12::nat), acr = Some (13::nat)\<rparr>])
   \<and> Login fake_detect fake_clients
       [\<lparr>ecr = Some 14, gcr = None, acr = None\<rparr>, \<lparr>ecr = Some 11, gcr = Some 12, acr = Some 13\<rparr>]
       (Some 0) (0::nat) ''gcr.io/my-project/my-repo'' gcr_ref
       \<lparr>AwsAutoLogin = True, GcpAutoLogin = False, AzureAutoLogin = False\<rparr>
       \<lparr>calls = [], world = 0\<rparr>
     = (Inr (None, Some ''GCR authentication failed''),
        \<lparr>calls = [GCR_Login None 0 False ''gcr.io/my-project/my-repo'' gcr_ref], world = 1\<rparr>)
   \<and> WithACRClient
       [\<lparr>ecr = Some 14, gcr = Some 15, acr = None\<rparr>, \<lparr>ecr = Some 11, gcr = Some 12, acr = Some 13\<rparr>]
       (Some 0) (Some 9)
     = Inr (Some 0,
         [\<lparr>ecr = Some 14, gcr = Some 15, acr = Some 9\<rparr>,
          \<lparr>ecr = Some (11::nat), gcr = Some (12::nat), acr = Some (13::nat)\<rparr>])
   \<and> Login fake_detect fake_clients
       [\<lparr>ecr = Some 14, gcr = Some 15, acr = Some 9\<rparr>, \<lparr>ecr = Some 11, gcr = Some 12, acr = Some 13\<rparr>]
       (Some 0) (0::nat) ''myregistry.azurecr.io/my-repo'' acr_ref
       \<lparr>AwsAutoLogin = False, GcpAutoLogin = False, AzureAutoLogin = True\<rparr>
       \<lparr>calls = [], world = 0\<rparr>
     = (Inr (Some ''azure-token'', None),
        \<lparr>calls = [ACR_Login (Some 9) 0 True ''myregistry.azurecr.io/my-repo'' acr_ref],
         world = 1\<rparr>)"
proof -
  have live:
    "deref [\<lparr>ecr = Some 14, gcr = Some 15, acr = None\<rparr>, \<lparr>ecr = Some 11, gcr = Some 12, acr = Some 13\<rparr>]
       (Some 0)
     = Some \<lparr>ecr = Some (14::nat), gcr = Some (15::nat), acr = (None :: nat option)\<rparr>"
    by simp
  have aws: "ImageRegistryProvider fake_detect aws_image aws_ref = ProviderAWS"
    by (simp add: ImageRegistryProvider_def fake_detect_def aws_image_def)
  have gcp: "ImageRegistryProvider fake_detect ''gcr.io/my-project/my-repo'' gcr_ref = ProviderGCP"
    by (simp add: ImageRegistryProvider_def fake_detect_def gcr_ref_def RegistryStr_def)
  have azure:
    "ImageRegistryProvider fake_detect ''myregistry.azurecr.io/my-repo'' acr_ref = ProviderAzure"
    by (simp add: ImageRegistryProvider_def fake_detect_def acr_ref_def RegistryStr_def)
  have ecr_set: "WithECRClient
       [\<lparr>ecr = Some 14, gcr = Some 15, acr = None\<rparr>, \<lparr>ecr = Some 11, gcr = Some 12, acr = Some 13\<rparr>]
       (Some 0) (Some 7)
     = Inr (Some 0,
         [\<lparr>ecr = Some 7, gcr = Some 15, acr = None\<rparr>,
          \<lparr>ecr = Some (11::nat), gcr = Some (12::nat), acr = Some (13::nat)\<rparr>])"
    by (simp add: WithECRClient_def)
  have gcr_set: "WithGCRClient
       [\<lparr>ecr = Some 14, gcr = Some 15, acr = None\<rparr>, \<lparr>ecr = Some 11, gcr = Some 12, acr = Some 13\<rparr>]
       (Some 0) None
     = Inr (Some 0,
         [\<lparr>ecr = Some 14, gcr = None, acr = None\<rparr>,
          \<lparr>ecr = Some (11::nat), gcr = Some (12::nat), acr = Some (13::nat)\<rparr>])"
    by (simp add: WithGCRClient_def)
  have acr_set: "WithACRClient
       [\<lparr>ecr = Some 14, gcr = Some 15, acr = None\<rparr>, \<lparr>ecr = Some 11, gcr = Some 12, acr = Some 13\<rparr>]
       (Some 0) (Some 9)
     = Inr (Some 0,
         [\<lparr>ecr = Some 14, gcr = Some 15, acr = Some 9\<rparr>,
          \<lparr>ecr = Some (11::nat), gcr = Some (12::nat), acr = Some (13::nat)\<rparr>])"
    by (simp add: WithACRClient_def)
  note at_aws = setters_override [OF live, of "Some 7" fake_detect aws_image aws_ref
      fake_clients 0 "\<lparr>AwsAutoLogin = True, GcpAutoLogin = False, AzureAutoLogin = False\<rparr>"
      "\<lparr>calls = [], world = 0\<rparr>" None "Some 9"]
  note at_gcp = setters_override [OF live, of "Some 7" fake_detect "''gcr.io/my-project/my-repo''"
      gcr_ref fake_clients 0
      "\<lparr>AwsAutoLogin = True, GcpAutoLogin = False, AzureAutoLogin = False\<rparr>"
      "\<lparr>calls = [], world = 0\<rparr>" None "Some 9"]
  note at_azure = setters_override [OF live, of "Some 7" fake_detect
      "''myregistry.azurecr.io/my-repo''" acr_ref fake_clients 0
      "\<lparr>AwsAutoLogin = False, GcpAutoLogin = False, AzureAutoLogin = True\<rparr>"
      "\<lparr>calls = [], world = 0\<rparr>" None "Some 9"]
  show ?thesis
    using live aws gcp azure at_aws at_gcp at_azure
    by (simp add: ecr_set gcr_set acr_set fake_clients_def)
qed

text \<open>
  C10. \<open>NewManager\<close> returns a pointer to a manager whose three handles are the clients
  its constructors have built, none of them nil; it leaves the managers already in the
  store as they were. A \<open>Login\<close> through that pointer does not panic on the receiver and,
  whatever the provider of the input, passes no nil handle to a client routine: the
  invocations it adds to the log all have a receiver that is not nil.
\<close>

theorem new_manager_handles:
  "(case NewManager e g a h of
      (m, h') \<Rightarrow>
        deref h' m = Some \<lparr>ecr = aws_NewClient e, gcr = gcp_NewClient g, acr = azure_NewClient a\<rparr>
        \<and> aws_NewClient e \<noteq> None \<and> gcp_NewClient g \<noteq> None \<and> azure_NewClient a \<noteq> None
        \<and> deref h m = None
        \<and> take (length h) h' = h
        \<and> (case Login dt cl h' m ctx img ref opts s of
             (r, s') \<Rightarrow>
               r \<noteq> Inl NilPointerDereference
               \<and> take (length (calls s)) (calls s') = calls s
               \<and> filter nil_receiver (drop (length (calls s)) (calls s')) = []))"
  by (cases "ImageRegistryProvider dt img ref")
    (simp_all add: NewManager_def Login_def invoke_def aws_NewClient_def gcp_NewClient_def
      azure_NewClient_def split: prod.splits)

theorem new_manager_handles_witness:
  "NewManager (21::nat) (22::nat) (23::nat) [\<lparr>ecr = None, gcr = None, acr = None\<rparr>]
     = (Some (Suc 0),
        [\<lparr>ecr = None, gcr = None, acr = None\<rparr>, \<lparr>ecr = Some 21, gcr = Some 22, acr = Some 23\<rparr>])
   \<and> Login fake_detect fake_clients
       [\<lparr>ecr = None, gcr = None, acr = None\<rparr>, \<lparr>ecr = Some 21, gcr = Some 22, acr = Some 23\<rparr>]
       (Some (Suc 0)) (0::nat) aws_image aws_ref
       \<lparr>AwsAutoLogin = True, GcpAutoLogin = False, AzureAutoLogin = False\<rparr>
       \<lparr>calls = [GCR_Login None 0 False ''gcr.io/my-project/my-repo'' gcr_ref], world = 5\<rparr>
     = (Inr (Some ''aws-token'', None),
        \<lparr>calls = [GCR_Login None 0 False ''gcr.io/my-project/my-repo'' gcr_ref,
                  ECR_Login (Some 21) 0 True aws_image],
         world = 6\<rparr>)"
  using new_manager_handles [where e = 21 and g = 22 and a = 23
      and h = "[\<lparr>ecr = None, gcr = None, acr = None\<rparr>]"
      and dt = fake_detect and cl = fake_clients and ctx = 0 and img = aws_image
      and ref = aws_ref
      and opts = "\<lparr>AwsAutoLogin = True, GcpAutoLogin = False, AzureAutoLogin = False\<rparr>"
      and s = "\<lparr>calls = [GCR_Login None 0 False ''gcr.io/my-project/my-repo'' gcr_ref],
        world = 5\<rparr>"]
  by (simp add: NewManager_def Login_def invoke_def ImageRegistryProvider_def fake_detect_def
      fake_clients_def aws_image_def aws_NewClient_def gcp_NewClient_def azure_NewClient_def)

end
